theory Spec2Isabelle
  imports Main
begin

section \<open>The event policy store (src/js/stores/policy.js)\<close>

text \<open>
  The two event kinds of \<^verbatim>\<open>_eventKind\<close>: \<^verbatim>\<open>"keyboard"\<close> and \<^verbatim>\<open>"pointer"\<close>.
\<close>

datatype eventKind = KEYBOARD | POINTER

text \<open>A thrown JavaScript \<^verbatim>\<open>Error\<close>, with its message.\<close>

datatype error = Error string

subsection \<open>The interface of EventPolicySet\<close>

text \<open>
  The store keeps its policies in objects of the class \<^verbatim>\<open>EventPolicySet\<close>
  (\<^verbatim>\<open>js/models/eventpolicyset\<close>), whose code is not part of the sources at hand.
  The store's functions therefore take the methods of that class as a parameter: a record
  of functions over an arbitrary type \<open>'ps\<close> of policy sets and an arbitrary type \<open>'p\<close>
  of event policies.

  The objects are mutable: a method that changes its receiver returns the receiver's new
  value next to its result. \<^verbatim>\<open>removePolicyList\<close> may throw; its outcome is the error
  or the removed list. The constructor takes an optional counter (\<open>None\<close> when it is
  called without an argument).
\<close>

record ('ps, 'p) EventPolicySet =
  eps_new :: "nat option \<Rightarrow> 'ps"
  eps_getNextPolicyID :: "'ps \<Rightarrow> nat"
  eps_has :: "'ps \<Rightarrow> nat \<Rightarrow> bool"
  eps_addPolicyList :: "'ps \<Rightarrow> 'p list \<Rightarrow> nat \<times> 'ps"
  eps_removePolicyList :: "'ps \<Rightarrow> nat \<Rightarrow> (error + 'p list) \<times> 'ps"
  eps_getMasterPolicyList :: "'ps \<Rightarrow> 'p list"
  eps_append :: "'ps \<Rightarrow> 'ps \<Rightarrow> 'ps"

subsection \<open>The state of the store\<close>

text \<open>
  The five private fields of the store are objects indexed by event kind.
  \<^verbatim>\<open>_policySets\<close> holds a policy set for both kinds from \<^verbatim>\<open>_handleReset\<close> on
  (which \<^verbatim>\<open>initialize\<close> calls) and no function removes one, so it is a total function.
  The other four start empty and are maps; reading an absent property gives
  \<^verbatim>\<open>undefined\<close>, which is \<open>None\<close>. A property that was assigned \<^verbatim>\<open>undefined\<close> reads
  like an absent one. The modes are of an arbitrary type \<open>'m\<close>.
  \<open>changeEvents\<close> counts the \<^verbatim>\<open>"change"\<close> events the store has emitted.
\<close>

record ('ps, 'm) PolicyStore =
  policySets :: "eventKind \<Rightarrow> 'ps"
  modes :: "eventKind \<rightharpoonup> 'm"
  suspendedPolicySets :: "eventKind \<rightharpoonup> 'ps"
  suspendedModes :: "eventKind \<rightharpoonup> 'm"
  dirtyPolicies :: "eventKind \<rightharpoonup> bool"
  changeEvents :: nat

definition emit_change :: "('ps, 'm) PolicyStore \<Rightarrow> ('ps, 'm) PolicyStore" where
  "emit_change s = s\<lparr>changeEvents := Suc (changeEvents s)\<rparr>"

subsection \<open>Handlers\<close>

definition handlePoliciesInstalled ::
  "('ps, 'm) PolicyStore \<Rightarrow> eventKind \<Rightarrow> ('ps, 'm) PolicyStore" where
  "handlePoliciesInstalled s kind =
     emit_change (s\<lparr>dirtyPolicies := (dirtyPolicies s)(kind := None)\<rparr>)"

definition handleReset ::
  "('ps, 'p) EventPolicySet \<Rightarrow> ('ps, 'm) PolicyStore \<Rightarrow> ('ps, 'm) PolicyStore" where
  "handleReset E s =
     s\<lparr>policySets := (\<lambda>kind. eps_new E None),
       modes := Map.empty,
       suspendedPolicySets := Map.empty,
       suspendedModes := Map.empty,
       dirtyPolicies := Map.empty\<rparr>"

definition handleModeChanged ::
  "('ps, 'm) PolicyStore \<Rightarrow> eventKind \<Rightarrow> 'm \<Rightarrow> ('ps, 'm) PolicyStore" where
  "handleModeChanged s kind mode = emit_change (s\<lparr>modes := (modes s)(kind \<mapsto> mode)\<rparr>)"

text \<open>\<^verbatim>\<open>initialize\<close> resets the fields of a store that has emitted nothing yet.\<close>

definition initialize :: "('ps, 'p) EventPolicySet \<Rightarrow> ('ps, 'm) PolicyStore" where
  "initialize E =
     handleReset E
       \<lparr>policySets = (\<lambda>kind. eps_new E None), modes = Map.empty,
        suspendedPolicySets = Map.empty, suspendedModes = Map.empty,
        dirtyPolicies = Map.empty, changeEvents = 0\<rparr>"

subsection \<open>Queries\<close>

definition isDirty :: "('ps, 'm) PolicyStore \<Rightarrow> eventKind \<Rightarrow> bool" where
  "isDirty s kind = (case dirtyPolicies s kind of None \<Rightarrow> False | Some b \<Rightarrow> b)"

definition getMode :: "('ps, 'm) PolicyStore \<Rightarrow> eventKind \<Rightarrow> 'm option" where
  "getMode s kind = modes s kind"

definition isSuspended :: "('ps, 'm) PolicyStore \<Rightarrow> eventKind \<Rightarrow> bool" where
  "isSuspended s kind = (suspendedPolicySets s kind \<noteq> None)"

definition areAllSuspended :: "('ps, 'm) PolicyStore \<Rightarrow> bool" where
  "areAllSuspended s =
     (suspendedPolicySets s KEYBOARD \<noteq> None \<and> suspendedPolicySets s KEYBOARD \<noteq> None)"

definition getMasterPolicyList ::
  "('ps, 'p) EventPolicySet \<Rightarrow> ('ps, 'm) PolicyStore \<Rightarrow> eventKind \<Rightarrow> 'p list" where
  "getMasterPolicyList E s kind = eps_getMasterPolicyList E (policySets s kind)"

subsection \<open>Suspending and restoring\<close>

definition suspend ::
  "('ps, 'p) EventPolicySet \<Rightarrow> ('ps, 'm) PolicyStore \<Rightarrow> eventKind \<Rightarrow> ('ps, 'm) PolicyStore" where
  "suspend E s kind =
     (let previousPolicySet = policySets s kind;
          counter = eps_getNextPolicyID E previousPolicySet
      in emit_change
           (s\<lparr>policySets := (policySets s)(kind := eps_new E (Some counter)),
              suspendedPolicySets := (suspendedPolicySets s)(kind \<mapsto> previousPolicySet),
              suspendedModes := (suspendedModes s)(kind := modes s kind),
              dirtyPolicies := (dirtyPolicies s)(kind \<mapsto> True)\<rparr>))"

text \<open>
  \<^verbatim>\<open>restore\<close> throws before it has changed anything, or changes the store and returns
  nothing: the outcome is the error or \<open>()\<close>, next to the store afterwards.
\<close>

definition restore ::
  "('ps, 'p) EventPolicySet \<Rightarrow> ('ps, 'm) PolicyStore \<Rightarrow> eventKind
     \<Rightarrow> (error + unit) \<times> ('ps, 'm) PolicyStore" where
  "restore E s kind =
     (let suspendedMode = suspendedModes s kind
      in case suspendedPolicySets s kind of
           None \<Rightarrow> (Inl (Error ''Policies are not currently suspended''), s)
         | Some suspendedPolicies \<Rightarrow>
             (Inr (),
              emit_change
                (s\<lparr>modes := (modes s)(kind := suspendedMode),
                   policySets :=
                     (policySets s)(kind := eps_append E suspendedPolicies (policySets s kind)),
                   suspendedPolicySets := (suspendedPolicySets s)(kind := None),
                   dirtyPolicies := (dirtyPolicies s)(kind \<mapsto> True)\<rparr>)))"

subsection \<open>Adding and removing policy lists\<close>

text \<open>
  Both functions set the dirty bit first and then call the policy set, which changes
  itself in place; if that call throws, the dirty bit stays set.
\<close>

definition removePolicyList ::
  "('ps, 'p) EventPolicySet \<Rightarrow> ('ps, 'm) PolicyStore \<Rightarrow> eventKind \<Rightarrow> nat
     \<Rightarrow> (error + 'p list) \<times> ('ps, 'm) PolicyStore" where
  "removePolicyList E s kind i =
     (let suspendedPolicySet = suspendedPolicySets s kind;
          s1 = s\<lparr>dirtyPolicies := (dirtyPolicies s)(kind \<mapsto> True)\<rparr>;
          fromActive =
            (let (r, ps') = eps_removePolicyList E (policySets s1 kind) i
             in (r, s1\<lparr>policySets := (policySets s1)(kind := ps')\<rparr>))
      in case suspendedPolicySet of
           None \<Rightarrow> fromActive
         | Some sp \<Rightarrow>
             if eps_has E sp i
             then (let (r, sp') = eps_removePolicyList E sp i
                   in (r, s1\<lparr>suspendedPolicySets := (suspendedPolicySets s1)(kind \<mapsto> sp')\<rparr>))
             else fromActive)"

definition removeKeyboardPolicyList ::
  "('ps, 'p) EventPolicySet \<Rightarrow> ('ps, 'm) PolicyStore \<Rightarrow> nat
     \<Rightarrow> (error + 'p list) \<times> ('ps, 'm) PolicyStore" where
  "removeKeyboardPolicyList E s i = removePolicyList E s KEYBOARD i"

definition removePointerPolicyList ::
  "('ps, 'p) EventPolicySet \<Rightarrow> ('ps, 'm) PolicyStore \<Rightarrow> nat
     \<Rightarrow> (error + 'p list) \<times> ('ps, 'm) PolicyStore" where
  "removePointerPolicyList E s i = removePolicyList E s POINTER i"

definition addPolicyList ::
  "('ps, 'p) EventPolicySet \<Rightarrow> ('ps, 'm) PolicyStore \<Rightarrow> eventKind \<Rightarrow> 'p list
     \<Rightarrow> nat \<times> ('ps, 'm) PolicyStore" where
  "addPolicyList E s kind policyList =
     (let s1 = s\<lparr>dirtyPolicies := (dirtyPolicies s)(kind \<mapsto> True)\<rparr>;
          (i, ps') = eps_addPolicyList E (policySets s1 kind) policyList
      in (i, s1\<lparr>policySets := (policySets s1)(kind := ps')\<rparr>))"

definition addKeyboardPolicyList ::
  "('ps, 'p) EventPolicySet \<Rightarrow> ('ps, 'm) PolicyStore \<Rightarrow> 'p list
     \<Rightarrow> nat \<times> ('ps, 'm) PolicyStore" where
  "addKeyboardPolicyList E s policyList = addPolicyList E s KEYBOARD policyList"

definition addPointerPolicyList ::
  "('ps, 'p) EventPolicySet \<Rightarrow> ('ps, 'm) PolicyStore \<Rightarrow> 'p list
     \<Rightarrow> nat \<times> ('ps, 'm) PolicyStore" where
  "addPointerPolicyList E s policyList = addPolicyList E s POINTER policyList"

subsection \<open>The store as a transition system\<close>

text \<open>
  Everything that changes the store: the three handlers bound in \<^verbatim>\<open>initialize\<close>
  (\<^verbatim>\<open>RESET\<close>, \<^verbatim>\<open>POLICIES_INSTALLED\<close>, \<^verbatim>\<open>MODE_CHANGED\<close>) and the four
  functions that change policies. \<open>step\<close> is the store after one of them; a \<^verbatim>\<open>restore\<close>
  that throws leaves the store as it was.
\<close>

datatype ('p, 'm) action =
    RESET
  | POLICIES_INSTALLED eventKind
  | MODE_CHANGED eventKind 'm
  | Suspend eventKind
  | Restore eventKind
  | RemovePolicyList eventKind nat
  | AddPolicyList eventKind "'p list"

fun step ::
  "('ps, 'p) EventPolicySet \<Rightarrow> ('ps, 'm) PolicyStore \<Rightarrow> ('p, 'm) action
     \<Rightarrow> ('ps, 'm) PolicyStore" where
  "step E s RESET = handleReset E s"
| "step E s (POLICIES_INSTALLED kind) = handlePoliciesInstalled s kind"
| "step E s (MODE_CHANGED kind mode) = handleModeChanged s kind mode"
| "step E s (Suspend kind) = suspend E s kind"
| "step E s (Restore kind) = snd (restore E s kind)"
| "step E s (RemovePolicyList kind i) = snd (removePolicyList E s kind i)"
| "step E s (AddPolicyList kind policyList) = snd (addPolicyList E s kind policyList)"

text \<open>
  \<open>run\<close> is the store after a sequence of actions. \<open>issuedIDs\<close> lists, in order, the
  IDs that \<^verbatim>\<open>addPolicyList\<close> returns for one event kind in the course of such a
  sequence.
\<close>

definition run ::
  "('ps, 'p) EventPolicySet \<Rightarrow> ('ps, 'm) PolicyStore \<Rightarrow> ('p, 'm) action list
     \<Rightarrow> ('ps, 'm) PolicyStore" where
  "run E s as = foldl (step E) s as"

fun issuedIDs ::
  "('ps, 'p) EventPolicySet \<Rightarrow> ('ps, 'm) PolicyStore \<Rightarrow> eventKind \<Rightarrow> ('p, 'm) action list
     \<Rightarrow> nat list" where
  "issuedIDs E s kind [] = []"
| "issuedIDs E s kind (AddPolicyList k policyList # as) =
     (if k = kind then [fst (addPolicyList E s k policyList)] else [])
       @ issuedIDs E (step E s (AddPolicyList k policyList)) kind as"
| "issuedIDs E s kind (a # as) = issuedIDs E (step E s a) kind as"

subsection \<open>A model of EventPolicySet\<close>

text \<open>
  Modelled from the spec: the class \<^verbatim>\<open>EventPolicySet\<close> of \<^verbatim>\<open>js/models/eventpolicyset\<close>
  is missing from the sources. The model follows the words used for it: a policy set
  holds policy lists under the IDs it issued and a counter, the next policy ID; a fresh
  set is empty and its counter starts at the number given (at 0 when none is given);
  adding a list issues the counter as its ID and advances the counter; removing a list
  returns it; the master policy list is all policies of all lists; a set appended with
  another holds the lists of both. What the model adds to those words: removing an
  unknown ID throws and changes nothing, and the counter of an appended set is the larger
  of the two counters.
\<close>

record 'p policySetModel =
  policyLists :: "(nat \<times> 'p list) list"
  policyCounter :: nat

definition model_new :: "nat option \<Rightarrow> 'p policySetModel" where
  "model_new counter =
     \<lparr>policyLists = [], policyCounter = (case counter of None \<Rightarrow> 0 | Some c \<Rightarrow> c)\<rparr>"

definition model_has :: "'p policySetModel \<Rightarrow> nat \<Rightarrow> bool" where
  "model_has ps i = (map_of (policyLists ps) i \<noteq> None)"

definition model_addPolicyList :: "'p policySetModel \<Rightarrow> 'p list \<Rightarrow> nat \<times> 'p policySetModel" where
  "model_addPolicyList ps policyList =
     (let i = policyCounter ps
      in (i, ps\<lparr>policyLists := policyLists ps @ [(i, policyList)], policyCounter := Suc i\<rparr>))"

definition model_removePolicyList ::
  "'p policySetModel \<Rightarrow> nat \<Rightarrow> (error + 'p list) \<times> 'p policySetModel" where
  "model_removePolicyList ps i =
     (case map_of (policyLists ps) i of
        None \<Rightarrow> (Inl (Error ''Unknown policy list''), ps)
      | Some policyList \<Rightarrow>
          (Inr policyList, ps\<lparr>policyLists := filter (\<lambda>e. fst e \<noteq> i) (policyLists ps)\<rparr>))"

definition model_getMasterPolicyList :: "'p policySetModel \<Rightarrow> 'p list" where
  "model_getMasterPolicyList ps = concat (map snd (policyLists ps))"

definition model_append :: "'p policySetModel \<Rightarrow> 'p policySetModel \<Rightarrow> 'p policySetModel" where
  "model_append ps policySet =
     \<lparr>policyLists = policyLists ps @ policyLists policySet,
      policyCounter = max (policyCounter ps) (policyCounter policySet)\<rparr>"

definition EventPolicySetModel :: "('p policySetModel, 'p) EventPolicySet" where
  "EventPolicySetModel =
     \<lparr>eps_new = model_new,
      eps_getNextPolicyID = policyCounter,
      eps_has = model_has,
      eps_addPolicyList = model_addPolicyList,
      eps_removePolicyList = model_removePolicyList,
      eps_getMasterPolicyList = model_getMasterPolicyList,
      eps_append = model_append\<rparr>"

text \<open>
  A policy set of the model is well formed when every ID in it is below its counter, and
  a store when the active and the suspended policy sets of both kinds are.
\<close>

definition wf_set :: "'p policySetModel \<Rightarrow> bool" where
  "wf_set ps = list_all (\<lambda>e. fst e < policyCounter ps) (policyLists ps)"

definition wf_store :: "('p policySetModel, 'm) PolicyStore \<Rightarrow> bool" where
  "wf_store s =
     (wf_set (policySets s KEYBOARD) \<and> wf_set (policySets s POINTER)
      \<and> (case suspendedPolicySets s KEYBOARD of None \<Rightarrow> True | Some sp \<Rightarrow> wf_set sp)
      \<and> (case suspendedPolicySets s POINTER of None \<Rightarrow> True | Some sp \<Rightarrow> wf_set sp))"

text \<open>
  Two stores over the model, for concrete runs: \<open>exampleStore\<close> has one keyboard policy
  list (issued as ID 0) and keyboard mode 2, and nothing suspended;
  \<open>suspendedStore\<close> is \<open>exampleStore\<close> after \<^verbatim>\<open>suspend("keyboard")\<close>.
\<close>

definition exampleStore :: "(string policySetModel, nat) PolicyStore" where
  "exampleStore =
     handleModeChanged
       (snd (addPolicyList EventPolicySetModel (initialize EventPolicySetModel)
               KEYBOARD [''escape'', ''enter'']))
       KEYBOARD 2"

definition suspendedStore :: "(string policySetModel, nat) PolicyStore" where
  "suspendedStore = suspend EventPolicySetModel exampleStore KEYBOARD"

section \<open>The numeric input control (NumberInput)\<close>

text \<open>
  A JavaScript number is a finite value, one of the two infinities, or NaN. No arithmetic
  is done on the finite values here, so their type \<open>'f\<close> is left open.
\<close>

datatype 'f jsNumber = Finite 'f | PosInfinity | NegInfinity | NaN

text \<open>
  Modelled from the spec: \<^verbatim>\<open>_.isFinite\<close> is a function of the lodash library, not of
  these sources; on a number it tells whether the number is finite.
\<close>

fun isFinite :: "'f jsNumber \<Rightarrow> bool" where
  "isFinite (Finite v) = True"
| "isFinite PosInfinity = False"
| "isFinite NegInfinity = False"
| "isFinite NaN = False"

text \<open>
  \<^verbatim>\<open>math.parseNumber\<close> (\<^verbatim>\<open>js/util/math\<close>) is not among the sources either: it is
  a parameter, from the raw string and the radix to a number. \<^verbatim>\<open>null\<close> is \<open>None\<close>.
\<close>

definition extractValue ::
  "(string \<Rightarrow> nat \<Rightarrow> 'f jsNumber) \<Rightarrow> string \<Rightarrow> 'f jsNumber option" where
  "extractValue parseNumber rawValue =
     (let v = parseNumber rawValue 10
      in if isFinite v then Some v else None)"

section \<open>The document model (Document)\<close>

text \<open>
  A Photoshop document descriptor, as far as \<^verbatim>\<open>Document.fromDescriptors\<close> reads it:
  \<^verbatim>\<open>resolution\<close> and \<^verbatim>\<open>mode\<close> are objects with a property \<^verbatim>\<open>value\<close> (the field
  \<open>val\<close>). The descriptor has more properties, which \<^verbatim>\<open>Bounds\<close> and
  \<^verbatim>\<open>LayerStructure\<close> read: they are the extension part of the record.
\<close>

record 'a descriptorValue =
  val :: 'a

record ('r, 'm) documentDescriptor =
  documentID :: int
  title :: string
  hasBackgroundLayer :: bool
  resolution :: "'r descriptorValue"
  mode :: "'m descriptorValue"

text \<open>
  The \<^verbatim>\<open>Immutable.Record\<close> with the seven fields of a document. The layer tree and
  the bounds are of the classes \<^verbatim>\<open>LayerStructure\<close> and \<^verbatim>\<open>Bounds\<close>, which are not
  among the sources: their types \<open>'l\<close> and \<open>'b\<close> are left open, and the functions
  of theirs that \<^verbatim>\<open>Document\<close> calls are parameters.
\<close>

record ('l, 'b, 'r, 'm) Document =
  id' :: int
  name :: string
  hasBackgroundLayer :: bool
  layers :: 'l
  bounds :: 'b
  resolution :: 'r
  mode :: 'm

definition fromDescriptors ::
  "(('r, 'm, 'z) documentDescriptor_scheme \<Rightarrow> 'b)
     \<Rightarrow> (('r, 'm, 'z) documentDescriptor_scheme \<Rightarrow> 'ld \<Rightarrow> 'l)
     \<Rightarrow> ('r, 'm, 'z) documentDescriptor_scheme \<Rightarrow> 'ld \<Rightarrow> ('l, 'b, 'r, 'm) Document" where
  "fromDescriptors Bounds_fromDocumentDescriptor LayerStructure_fromDescriptors
       documentDescriptor layerDescriptors =
     \<lparr>id' = documentID documentDescriptor,
      name = title documentDescriptor,
      hasBackgroundLayer = documentDescriptor.hasBackgroundLayer documentDescriptor,
      layers = LayerStructure_fromDescriptors documentDescriptor layerDescriptors,
      bounds = Bounds_fromDocumentDescriptor documentDescriptor,
      resolution = val (documentDescriptor.resolution documentDescriptor),
      mode = val (documentDescriptor.mode documentDescriptor)\<rparr>"

text \<open>
  \<^verbatim>\<open>resize\<close> is \<^verbatim>\<open>this.set("bounds", this.bounds.updateSize(x, y))\<close>: the record's
  \<^verbatim>\<open>set\<close> returns a record with that one field replaced. \<^verbatim>\<open>updateSize\<close> is the
  parameter.
\<close>

definition resize ::
  "('b \<Rightarrow> 'n \<Rightarrow> 'n \<Rightarrow> 'b) \<Rightarrow> ('l, 'b, 'r, 'm) Document \<Rightarrow> 'n \<Rightarrow> 'n
     \<Rightarrow> ('l, 'b, 'r, 'm) Document" where
  "resize updateSize d x y = d\<lparr>bounds := updateSize (bounds d) x y\<rparr>"

section \<open>Properties of the policy store\<close>

lemmas store_defs = emit_change_def handlePoliciesInstalled_def handleReset_def
  handleModeChanged_def initialize_def isDirty_def getMode_def isSuspended_def
  areAllSuspended_def getMasterPolicyList_def suspend_def restore_def removePolicyList_def
  addPolicyList_def

lemmas model_defs = model_new_def model_has_def model_addPolicyList_def
  model_removePolicyList_def model_getMasterPolicyList_def model_append_def
  EventPolicySetModel_def

lemma model_sel:
  "eps_new EventPolicySetModel = model_new"
  "eps_getNextPolicyID EventPolicySetModel = policyCounter"
  "eps_has EventPolicySetModel = model_has"
  "eps_addPolicyList EventPolicySetModel = model_addPolicyList"
  "eps_removePolicyList EventPolicySetModel = model_removePolicyList"
  "eps_getMasterPolicyList EventPolicySetModel = model_getMasterPolicyList"
  "eps_append EventPolicySetModel = model_append"
  by (simp_all add: EventPolicySetModel_def)

subsection \<open>The two example stores, evaluated\<close>

lemma exampleStore_eq:
  "exampleStore =
     \<lparr>policySets = (\<lambda>kind. \<lparr>policyLists = [], policyCounter = 0\<rparr>)
        (KEYBOARD := \<lparr>policyLists = [(0, [''escape'', ''enter''])], policyCounter = 1\<rparr>),
      modes = [KEYBOARD \<mapsto> 2], suspendedPolicySets = Map.empty, suspendedModes = Map.empty,
      dirtyPolicies = [KEYBOARD \<mapsto> True], changeEvents = 1\<rparr>"
  by (simp add: exampleStore_def store_defs model_defs)

lemma suspendedStore_eq:
  "suspendedStore =
     \<lparr>policySets = (\<lambda>kind. \<lparr>policyLists = [], policyCounter = 0\<rparr>)
        (KEYBOARD := \<lparr>policyLists = [], policyCounter = 1\<rparr>),
      modes = [KEYBOARD \<mapsto> 2],
      suspendedPolicySets =
        [KEYBOARD \<mapsto> \<lparr>policyLists = [(0, [''escape'', ''enter''])], policyCounter = 1\<rparr>],
      suspendedModes = [KEYBOARD \<mapsto> 2],
      dirtyPolicies = [KEYBOARD \<mapsto> True], changeEvents = 2\<rparr>"
  by (simp add: suspendedStore_def exampleStore_eq store_defs model_defs)

subsection \<open>What a suspension saves, and how long it is kept\<close>

text \<open>
  \<^verbatim>\<open>suspend\<close> saves the current mode and the current policy set of the kind. Until the
  next \<^verbatim>\<open>suspend\<close> of that kind or the next reset, nothing changes the saved mode, and
  only \<^verbatim>\<open>removePolicyList\<close> changes the saved policy set (\<^verbatim>\<open>restore\<close> drops it).
  So whenever a kind is suspended, \<open>suspendedModes s kind\<close> is the mode it had when it was
  last suspended.
\<close>

lemma suspend_saves:
  "suspendedModes (suspend E s kind) kind = getMode s kind
   \<and> suspendedPolicySets (suspend E s kind) kind = Some (policySets s kind)"
  by (simp add: store_defs Let_def)

lemma saved_mode_kept:
  assumes "a \<noteq> Suspend kind" and "a \<noteq> RESET"
  shows "suspendedModes (step E s a) kind = suspendedModes s kind"
  using assms
  by (cases a) (auto simp: store_defs Let_def split: option.splits prod.splits)

lemma suspension_kept:
  assumes "a \<noteq> Restore kind" and "a \<noteq> RESET" and "isSuspended s kind"
  shows "isSuspended (step E s a) kind"
  using assms
  by (cases a) (auto simp: store_defs Let_def split: option.splits prod.splits)

subsection \<open>restore\<close>

text \<open>
  Claim C1. When the policies of an event kind are suspended (the suspended policy set
  is \<open>sp\<close>), \<^verbatim>\<open>restore(kind)\<close> returns normally; afterwards the current mode of the
  kind is the saved mode, the active policy set of the kind is \<open>sp\<close> appended with the
  policy set that was active since the suspension, the kind is no longer suspended, and
  it is dirty.
\<close>

theorem restore_suspended:
  assumes "suspendedPolicySets s kind = Some sp"
  shows "fst (restore E s kind) = Inr ()
       \<and> getMode (snd (restore E s kind)) kind = suspendedModes s kind
       \<and> policySets (snd (restore E s kind)) kind = eps_append E sp (policySets s kind)
       \<and> \<not> isSuspended (snd (restore E s kind)) kind
       \<and> isDirty (snd (restore E s kind)) kind"
  using assms by (simp add: store_defs)

theorem restore_suspended_witness:
  "suspendedPolicySets suspendedStore KEYBOARD
     = Some \<lparr>policyLists = [(0, [''escape'', ''enter''])], policyCounter = 1\<rparr>
   \<and> fst (restore EventPolicySetModel suspendedStore KEYBOARD) = Inr ()
   \<and> getMode (snd (restore EventPolicySetModel suspendedStore KEYBOARD)) KEYBOARD = Some 2
   \<and> policySets (snd (restore EventPolicySetModel suspendedStore KEYBOARD)) KEYBOARD
       = \<lparr>policyLists = [(0, [''escape'', ''enter''])], policyCounter = 1\<rparr>
   \<and> \<not> isSuspended (snd (restore EventPolicySetModel suspendedStore KEYBOARD)) KEYBOARD
   \<and> isDirty (snd (restore EventPolicySetModel suspendedStore KEYBOARD)) KEYBOARD"
proof -
  have h: "suspendedPolicySets suspendedStore KEYBOARD
     = Some \<lparr>policyLists = [(0, [''escape'', ''enter''])], policyCounter = 1\<rparr>"
    by (simp add: suspendedStore_eq)
  have m: "suspendedModes suspendedStore KEYBOARD = Some 2"
    by (simp add: suspendedStore_eq)
  have p: "policySets suspendedStore KEYBOARD = \<lparr>policyLists = [], policyCounter = 1\<rparr>"
    by (simp add: suspendedStore_eq)
  show ?thesis
    using h restore_suspended [OF h, of EventPolicySetModel] m p
    by (simp add: model_defs)
qed

text \<open>
  Claim C2. \<^verbatim>\<open>restore(kind)\<close> throws exactly when the policies of the kind are not
  suspended; the error it throws is the one with the message
  \<^verbatim>\<open>Policies are not currently suspended\<close>; and when it throws, the store is the
  store it was called on, all fields alike.
\<close>

theorem restore_throws_iff_not_suspended:
  "((\<exists>e. fst (restore E s kind) = Inl e) = (\<not> isSuspended s kind))
   \<and> ((fst (restore E s kind) = Inl (Error ''Policies are not currently suspended''))
        = (\<not> isSuspended s kind))
   \<and> (\<not> isSuspended s kind \<longrightarrow> snd (restore E s kind) = s)"
  by (simp add: restore_def isSuspended_def split: option.splits)

theorem restore_throws_iff_not_suspended_witness:
  "\<not> isSuspended exampleStore KEYBOARD
   \<and> restore EventPolicySetModel exampleStore KEYBOARD
       = (Inl (Error ''Policies are not currently suspended''), exampleStore)"
proof -
  have h: "\<not> isSuspended exampleStore KEYBOARD"
    by (simp add: exampleStore_eq isSuspended_def)
  show ?thesis
    using h restore_throws_iff_not_suspended [of EventPolicySetModel exampleStore KEYBOARD]
    by (simp add: prod_eq_iff)
qed

subsection \<open>suspend followed by restore\<close>

text \<open>
  For any implementation of the policy sets in which a set appended with the fresh set
  made from its own next policy ID has the master policy list of the set itself,
  \<^verbatim>\<open>suspend\<close> followed at once by \<^verbatim>\<open>restore\<close> goes through and gives back the mode
  and the master policy list.
\<close>

lemma suspend_restore_generic:
  assumes "eps_getMasterPolicyList E
             (eps_append E (policySets s kind)
                (eps_new E (Some (eps_getNextPolicyID E (policySets s kind)))))
           = eps_getMasterPolicyList E (policySets s kind)"
  shows "fst (restore E (suspend E s kind) kind) = Inr ()
       \<and> getMode (snd (restore E (suspend E s kind) kind)) kind = getMode s kind
       \<and> getMasterPolicyList E (snd (restore E (suspend E s kind) kind)) kind
           = getMasterPolicyList E s kind
       \<and> \<not> isSuspended (snd (restore E (suspend E s kind) kind)) kind
       \<and> isDirty (snd (restore E (suspend E s kind) kind)) kind"
  using assms by (simp add: store_defs Let_def)

lemma model_append_fresh:
  "model_append ps (model_new (Some (policyCounter ps))) = ps"
  by (simp add: model_append_def model_new_def)

text \<open>
  Claim C3. Over the model of the policy sets: for every store and event kind,
  \<^verbatim>\<open>suspend(kind)\<close> followed at once by \<^verbatim>\<open>restore(kind)\<close> does not throw, and leaves
  the kind with the mode and the master policy list it had, not suspended, and dirty.
\<close>

theorem suspend_restore_roundtrip:
  fixes s :: "('p policySetModel, 'm) PolicyStore"
  shows "fst (restore EventPolicySetModel (suspend EventPolicySetModel s kind) kind) = Inr ()
       \<and> getMode (snd (restore EventPolicySetModel (suspend EventPolicySetModel s kind) kind)) kind
           = getMode s kind
       \<and> getMasterPolicyList EventPolicySetModel
           (snd (restore EventPolicySetModel (suspend EventPolicySetModel s kind) kind)) kind
           = getMasterPolicyList EventPolicySetModel s kind
       \<and> \<not> isSuspended (snd (restore EventPolicySetModel (suspend EventPolicySetModel s kind) kind)) kind
       \<and> isDirty (snd (restore EventPolicySetModel (suspend EventPolicySetModel s kind) kind)) kind"
proof (rule suspend_restore_generic)
  show "eps_getMasterPolicyList EventPolicySetModel
          (eps_append EventPolicySetModel (policySets s kind)
             (eps_new EventPolicySetModel
                (Some (eps_getNextPolicyID EventPolicySetModel (policySets s kind)))))
        = eps_getMasterPolicyList EventPolicySetModel (policySets s kind)"
    by (simp add: EventPolicySetModel_def model_append_fresh)
qed

subsection \<open>suspend\<close>

text \<open>
  What \<^verbatim>\<open>suspend\<close> does to the store, for any implementation of the policy sets: the
  active policy set of the kind becomes the set constructed from the next policy ID of
  the set it suspends, that set is kept as the suspended one, the kind is suspended and
  dirty, its current mode is as before, and every field is as before at any other kind.
\<close>

lemma suspend_frame:
  "policySets (suspend E s kind) kind
     = eps_new E (Some (eps_getNextPolicyID E (policySets s kind)))
   \<and> suspendedPolicySets (suspend E s kind) kind = Some (policySets s kind)
   \<and> isSuspended (suspend E s kind) kind
   \<and> isDirty (suspend E s kind) kind
   \<and> getMode (suspend E s kind) kind = getMode s kind
   \<and> (other \<noteq> kind \<longrightarrow>
        policySets (suspend E s kind) other = policySets s other
      \<and> getMode (suspend E s kind) other = getMode s other
      \<and> suspendedPolicySets (suspend E s kind) other = suspendedPolicySets s other
      \<and> suspendedModes (suspend E s kind) other = suspendedModes s other
      \<and> isSuspended (suspend E s kind) other = isSuspended s other
      \<and> dirtyPolicies (suspend E s kind) other = dirtyPolicies s other
      \<and> isDirty (suspend E s kind) other = isDirty s other)"
  by (simp add: store_defs Let_def)

text \<open>
  In the model of the policy sets every store that the actions can produce from an
  initialized store is well formed.
\<close>

lemma wf_set_new: "wf_set (model_new c)"
  by (simp add: wf_set_def model_new_def)

lemma wf_set_add: "wf_set ps \<Longrightarrow> wf_set (snd (model_addPolicyList ps pl))"
  by (auto simp: wf_set_def model_addPolicyList_def Let_def list_all_iff)

lemma wf_set_remove: "wf_set ps \<Longrightarrow> wf_set (snd (model_removePolicyList ps i))"
  by (auto simp: wf_set_def model_removePolicyList_def list_all_iff split: option.splits)

lemma wf_set_append: "wf_set a \<Longrightarrow> wf_set b \<Longrightarrow> wf_set (model_append a b)"
  by (auto simp: wf_set_def model_append_def list_all_iff)

lemma wf_store_iff:
  "wf_store s =
     (\<forall>k. wf_set (policySets s k) \<and> (\<forall>sp. suspendedPolicySets s k = Some sp \<longrightarrow> wf_set sp))"
proof -
  have all: "\<And>P. (\<forall>k. P k) = (P KEYBOARD \<and> P POINTER)"
    by (metis eventKind.exhaust)
  show ?thesis
    unfolding wf_store_def all by (auto split: option.splits)
qed

lemma wf_store_initialize: "wf_store (initialize EventPolicySetModel)"
  by (simp add: wf_store_def initialize_def handleReset_def EventPolicySetModel_def wf_set_new)

lemma wf_store_step:
  assumes "wf_store s"
  shows "wf_store (step EventPolicySetModel s a)"
proof (cases a)
  case RESET
  then show ?thesis
    by (simp add: wf_store_def handleReset_def EventPolicySetModel_def wf_set_new)
next
  case (POLICIES_INSTALLED k)
  with assms show ?thesis
    by (simp add: wf_store_iff handlePoliciesInstalled_def emit_change_def)
next
  case (MODE_CHANGED k m)
  with assms show ?thesis
    by (simp add: wf_store_iff handleModeChanged_def emit_change_def)
next
  case (Suspend k)
  with assms show ?thesis
    by (simp add: wf_store_iff suspend_def emit_change_def Let_def EventPolicySetModel_def
        wf_set_new)
next
  case (Restore k)
  with assms show ?thesis
    by (auto simp: wf_store_iff restore_def emit_change_def Let_def EventPolicySetModel_def
        wf_set_append split: option.splits)
next
  case (RemovePolicyList k i)
  have r: "\<And>ps r ps'. wf_set ps \<Longrightarrow> model_removePolicyList ps i = (r, ps') \<Longrightarrow> wf_set ps'"
    using wf_set_remove by (metis snd_conv)
  from RemovePolicyList assms show ?thesis
    by (auto simp: wf_store_iff removePolicyList_def Let_def EventPolicySetModel_def
        split: option.splits prod.splits if_splits dest: r)
next
  case (AddPolicyList k pl)
  have r: "\<And>ps i ps'. wf_set ps \<Longrightarrow> model_addPolicyList ps pl = (i, ps') \<Longrightarrow> wf_set ps'"
    using wf_set_add by (metis snd_conv)
  from AddPolicyList assms show ?thesis
    by (auto simp: wf_store_iff addPolicyList_def Let_def EventPolicySetModel_def
        split: option.splits prod.splits if_splits dest: r)
qed

lemma wf_store_run: "wf_store s \<Longrightarrow> wf_store (run EventPolicySetModel s as)"
  unfolding run_def by (induction as arbitrary: s) (simp_all add: wf_store_step)

lemma wf_store_reachable:
  "wf_store (run EventPolicySetModel (initialize EventPolicySetModel) history)"
  by (simp add: wf_store_run wf_store_initialize)

lemma counter_step:
  fixes s :: "('p policySetModel, 'm) PolicyStore"
  assumes "a \<noteq> RESET" and "a \<noteq> Restore kind"
  shows "policyCounter (policySets s kind)
           \<le> policyCounter (policySets (step EventPolicySetModel s a) kind)"
  using assms
  by (cases a)
     (auto simp: handlePoliciesInstalled_def handleModeChanged_def suspend_def restore_def
        removePolicyList_def addPolicyList_def emit_change_def Let_def EventPolicySetModel_def
        model_new_def model_addPolicyList_def model_removePolicyList_def
        split: option.splits prod.splits if_splits)

lemma issued_add:
  fixes s :: "('p policySetModel, 'm) PolicyStore"
  shows "fst (addPolicyList EventPolicySetModel s kind pl) = policyCounter (policySets s kind)"
  by (simp add: addPolicyList_def Let_def EventPolicySetModel_def model_addPolicyList_def)

lemma issuedIDs_ge:
  fixes s :: "('p policySetModel, 'm) PolicyStore"
  assumes "RESET \<notin> set during" and "Restore kind \<notin> set during"
  shows "\<forall>j \<in> set (issuedIDs EventPolicySetModel s kind during).
           policyCounter (policySets s kind) \<le> j"
  using assms
proof (induction during arbitrary: s)
  case Nil
  then show ?case by simp
next
  case (Cons a during)
  have a: "a \<noteq> RESET" "a \<noteq> Restore kind" using Cons.prems by auto
  have le: "policyCounter (policySets s kind)
           \<le> policyCounter (policySets (step EventPolicySetModel s a) kind)"
    by (rule counter_step [OF a])
  have rest: "\<forall>j \<in> set (issuedIDs EventPolicySetModel (step EventPolicySetModel s a) kind during).
           policyCounter (policySets s kind) \<le> j"
    using Cons.IH [of "step EventPolicySetModel s a"] Cons.prems le by auto
  show ?case
  proof (cases a)
    case (AddPolicyList k pl)
    with rest show ?thesis by (auto simp: issued_add)
  qed (use rest in auto)
qed

text \<open>
  Until the next reset or \<^verbatim>\<open>restore\<close> of the kind the counter of its active policy set
  never goes down, and \<^verbatim>\<open>addPolicyList\<close> issues that counter: so the IDs issued after a
  \<^verbatim>\<open>suspend\<close> start at the counter of the suspended set, above all its IDs. While the
  suspension lasts the suspended set only loses lists.
\<close>

lemma model_has_iff: "model_has ps i = (i \<in> fst ` set (policyLists ps))"
  by (simp add: model_has_def map_of_eq_None_iff)

lemma wf_set_has_less: "wf_set ps \<Longrightarrow> model_has ps j \<Longrightarrow> j < policyCounter ps"
  by (auto simp: wf_set_def model_has_iff list_all_iff)

lemma suspend_no_collision:
  fixes s :: "('p policySetModel, 'm) PolicyStore"
  assumes "wf_set (policySets s kind)"
    and "Restore kind \<notin> set during" and "RESET \<notin> set during"
  shows "\<forall>j \<in> set (issuedIDs EventPolicySetModel (suspend EventPolicySetModel s kind) kind during).
           \<not> model_has (policySets s kind) j"
proof
  fix j
  assume j: "j \<in> set (issuedIDs EventPolicySetModel (suspend EventPolicySetModel s kind) kind during)"
  have c: "policyCounter (policySets (suspend EventPolicySetModel s kind) kind)
             = policyCounter (policySets s kind)"
    by (simp add: suspend_def emit_change_def Let_def EventPolicySetModel_def model_new_def)
  have "policyCounter (policySets (suspend EventPolicySetModel s kind) kind) \<le> j"
    using issuedIDs_ge [OF assms(3) assms(2)] j by blast
  then have "policyCounter (policySets s kind) \<le> j"
    by (simp add: c)
  then show "\<not> model_has (policySets s kind) j"
    using wf_set_has_less [OF assms(1)] by fastforce
qed

lemma suspended_shrinks_step:
  fixes s :: "('p policySetModel, 'm) PolicyStore"
  assumes "a \<noteq> Suspend kind" and "a \<noteq> Restore kind" and "a \<noteq> RESET"
    and "suspendedPolicySets s kind = Some sp"
  shows "\<exists>sp'. suspendedPolicySets (step EventPolicySetModel s a) kind = Some sp'
              \<and> set (policyLists sp') \<subseteq> set (policyLists sp)"
  using assms
  by (cases a)
     (auto simp: handlePoliciesInstalled_def handleModeChanged_def suspend_def restore_def
        removePolicyList_def addPolicyList_def emit_change_def Let_def model_sel
        model_removePolicyList_def
        split: option.splits prod.splits if_splits)

lemma suspended_shrinks_run:
  fixes s :: "('p policySetModel, 'm) PolicyStore"
  assumes "Suspend kind \<notin> set during" and "Restore kind \<notin> set during"
    and "RESET \<notin> set during" and "suspendedPolicySets s kind = Some sp"
  shows "\<exists>sp'. suspendedPolicySets (run EventPolicySetModel s during) kind = Some sp'
              \<and> set (policyLists sp') \<subseteq> set (policyLists sp)"
  using assms
proof (induction during arbitrary: s sp)
  case Nil
  then show ?case by (simp add: run_def)
next
  case (Cons a during)
  have a: "a \<noteq> Suspend kind" "a \<noteq> Restore kind" "a \<noteq> RESET"
    using Cons.prems by auto
  obtain sp1 where sp1: "suspendedPolicySets (step EventPolicySetModel s a) kind = Some sp1"
    and sub1: "set (policyLists sp1) \<subseteq> set (policyLists sp)"
    using suspended_shrinks_step [OF a Cons.prems(4)] by blast
  obtain sp' where sp': "suspendedPolicySets
        (run EventPolicySetModel (step EventPolicySetModel s a) during) kind = Some sp'"
    and sub2: "set (policyLists sp') \<subseteq> set (policyLists sp1)"
    using Cons.IH [OF _ _ _ sp1] Cons.prems by auto
  have "run EventPolicySetModel s (a # during)
          = run EventPolicySetModel (step EventPolicySetModel s a) during"
    by (simp add: run_def)
  with sp' sub1 sub2 show ?case by auto
qed

text \<open>
  Claim C7. Over the model of the policy sets, for every store and event kind:
  \<^verbatim>\<open>suspend(kind)\<close> makes the active policy set of the kind a set with no policy
  lists whose next policy ID is that of the set it suspends, keeps that set as the
  suspended one, marks the kind suspended and dirty and leaves its current mode alone;
  of any other kind it leaves the policy set, the mode, the suspended set and mode and
  the dirty bit alone. And when the store is one that a history of actions produces from
  an initialized store, then in any sequence of actions that follows the \<^verbatim>\<open>suspend\<close>
  and neither suspends or restores the kind nor resets the store, every ID issued by
  \<^verbatim>\<open>addPolicyList\<close> for the kind is none of the IDs of the set that was suspended, and
  none of the IDs of the suspended set as it is after the sequence.
\<close>

theorem suspend_fresh_set:
  fixes s :: "('p policySetModel, 'm) PolicyStore"
  shows "policyLists (policySets (suspend EventPolicySetModel s kind) kind) = []
   \<and> \<not> eps_has EventPolicySetModel (policySets (suspend EventPolicySetModel s kind) kind) i
   \<and> getMasterPolicyList EventPolicySetModel (suspend EventPolicySetModel s kind) kind = []
   \<and> eps_getNextPolicyID EventPolicySetModel (policySets (suspend EventPolicySetModel s kind) kind)
       = eps_getNextPolicyID EventPolicySetModel (policySets s kind)
   \<and> suspendedPolicySets (suspend EventPolicySetModel s kind) kind = Some (policySets s kind)
   \<and> isSuspended (suspend EventPolicySetModel s kind) kind
   \<and> isDirty (suspend EventPolicySetModel s kind) kind
   \<and> getMode (suspend EventPolicySetModel s kind) kind = getMode s kind
   \<and> (other \<noteq> kind \<longrightarrow>
        policySets (suspend EventPolicySetModel s kind) other = policySets s other
      \<and> getMode (suspend EventPolicySetModel s kind) other = getMode s other
      \<and> suspendedPolicySets (suspend EventPolicySetModel s kind) other
          = suspendedPolicySets s other
      \<and> suspendedModes (suspend EventPolicySetModel s kind) other = suspendedModes s other
      \<and> isSuspended (suspend EventPolicySetModel s kind) other = isSuspended s other
      \<and> dirtyPolicies (suspend EventPolicySetModel s kind) other = dirtyPolicies s other
      \<and> isDirty (suspend EventPolicySetModel s kind) other = isDirty s other)
   \<and> (s = run EventPolicySetModel (initialize EventPolicySetModel) history
      \<and> Suspend kind \<notin> set during \<and> Restore kind \<notin> set during \<and> RESET \<notin> set during \<longrightarrow>
        (\<forall>j \<in> set (issuedIDs EventPolicySetModel (suspend EventPolicySetModel s kind) kind during).
           \<not> eps_has EventPolicySetModel (policySets s kind) j
         \<and> (case suspendedPolicySets
                    (run EventPolicySetModel (suspend EventPolicySetModel s kind) during) kind of
               None \<Rightarrow> False
             | Some sp' \<Rightarrow> \<not> eps_has EventPolicySetModel sp' j)))"
proof -
  have fresh: "policySets (suspend EventPolicySetModel s kind) kind
                 = \<lparr>policyLists = [], policyCounter = policyCounter (policySets s kind)\<rparr>"
    by (simp add: suspend_def emit_change_def Let_def EventPolicySetModel_def model_new_def)
  have e1: "policyLists (policySets (suspend EventPolicySetModel s kind) kind) = []"
    by (simp add: fresh)
  have e2: "\<not> eps_has EventPolicySetModel (policySets (suspend EventPolicySetModel s kind) kind) i"
    by (simp add: fresh model_sel model_has_def)
  have e3: "getMasterPolicyList EventPolicySetModel (suspend EventPolicySetModel s kind) kind = []"
    by (simp add: getMasterPolicyList_def fresh model_sel model_getMasterPolicyList_def)
  have e4: "eps_getNextPolicyID EventPolicySetModel
              (policySets (suspend EventPolicySetModel s kind) kind)
            = eps_getNextPolicyID EventPolicySetModel (policySets s kind)"
    by (simp add: fresh model_sel)
  have nc: "s = run EventPolicySetModel (initialize EventPolicySetModel) history
      \<and> Suspend kind \<notin> set during \<and> Restore kind \<notin> set during \<and> RESET \<notin> set during \<longrightarrow>
        (\<forall>j \<in> set (issuedIDs EventPolicySetModel (suspend EventPolicySetModel s kind) kind during).
           \<not> eps_has EventPolicySetModel (policySets s kind) j
         \<and> (case suspendedPolicySets
                    (run EventPolicySetModel (suspend EventPolicySetModel s kind) during) kind of
               None \<Rightarrow> False
             | Some sp' \<Rightarrow> \<not> eps_has EventPolicySetModel sp' j))"
  proof (intro impI ballI)
    fix j
    assume h: "s = run EventPolicySetModel (initialize EventPolicySetModel) history
      \<and> Suspend kind \<notin> set during \<and> Restore kind \<notin> set during \<and> RESET \<notin> set during"
    assume j: "j \<in> set (issuedIDs EventPolicySetModel (suspend EventPolicySetModel s kind)
                          kind during)"
    from h have "wf_store s"
      by (simp add: wf_store_reachable)
    then have "wf_set (policySets s kind)"
      by (simp add: wf_store_iff)
    then have "\<forall>j \<in> set (issuedIDs EventPolicySetModel (suspend EventPolicySetModel s kind) kind during).
           \<not> model_has (policySets s kind) j"
      using h by (intro suspend_no_collision) simp_all
    with j have miss: "\<not> model_has (policySets s kind) j"
      by blast
    have "suspendedPolicySets (suspend EventPolicySetModel s kind) kind = Some (policySets s kind)"
      by (simp add: suspend_def emit_change_def Let_def)
    then obtain sp' where sp': "suspendedPolicySets
          (run EventPolicySetModel (suspend EventPolicySetModel s kind) during) kind = Some sp'"
      and sub: "set (policyLists sp') \<subseteq> set (policyLists (policySets s kind))"
      using suspended_shrinks_run [of kind during "suspend EventPolicySetModel s kind"] h
      by blast
    from sub miss have "\<not> model_has sp' j"
      by (auto simp: model_has_iff)
    with miss sp' show "\<not> eps_has EventPolicySetModel (policySets s kind) j
         \<and> (case suspendedPolicySets
                    (run EventPolicySetModel (suspend EventPolicySetModel s kind) during) kind of
               None \<Rightarrow> False
             | Some sp' \<Rightarrow> \<not> eps_has EventPolicySetModel sp' j)"
      by (simp add: model_sel)
  qed
  from e1 e2 e3 e4 nc suspend_frame [of EventPolicySetModel s kind other]
  show ?thesis by blast
qed

text \<open>
  A run: \<open>exampleStore\<close> is produced by a history of two actions, and its keyboard set
  holds ID 0. After \<^verbatim>\<open>suspend("keyboard")\<close> the active set is empty with counter 1,
  the pointer kind is untouched, and of five actions that follow, the two keyboard
  \<^verbatim>\<open>addPolicyList\<close> are issued the IDs 1 and 2, which the suspended set does not have.
\<close>

theorem suspend_fresh_set_witness:
  "POINTER \<noteq> KEYBOARD
   \<and> exampleStore =
       run EventPolicySetModel (initialize EventPolicySetModel)
         [AddPolicyList KEYBOARD [''escape'', ''enter''], MODE_CHANGED KEYBOARD 2]
   \<and> policySets (suspend EventPolicySetModel exampleStore KEYBOARD) KEYBOARD
       = \<lparr>policyLists = [], policyCounter = 1\<rparr>
   \<and> policySets (suspend EventPolicySetModel exampleStore KEYBOARD) POINTER
       = policySets exampleStore POINTER
   \<and> isDirty (suspend EventPolicySetModel exampleStore KEYBOARD) POINTER
       = isDirty exampleStore POINTER
   \<and> eps_has EventPolicySetModel (policySets exampleStore KEYBOARD) 0
   \<and> issuedIDs EventPolicySetModel (suspend EventPolicySetModel exampleStore KEYBOARD) KEYBOARD
         [AddPolicyList KEYBOARD [''tab''], RemovePolicyList KEYBOARD 0,
          AddPolicyList POINTER [''click''], MODE_CHANGED KEYBOARD 3,
          AddPolicyList KEYBOARD [''space'']]
       = [1, 2]
   \<and> \<not> eps_has EventPolicySetModel (policySets exampleStore KEYBOARD) 1
   \<and> \<not> eps_has EventPolicySetModel (policySets exampleStore KEYBOARD) 2"
proof -
  let ?history = "[AddPolicyList KEYBOARD [''escape'', ''enter''], MODE_CHANGED KEYBOARD 2]
                    :: (string, nat) action list"
  let ?during = "[AddPolicyList KEYBOARD [''tab''], RemovePolicyList KEYBOARD 0,
          AddPolicyList POINTER [''click''], MODE_CHANGED KEYBOARD 3,
          AddPolicyList KEYBOARD [''space'']] :: (string, nat) action list"
  note t = suspend_fresh_set [where s = exampleStore and kind = KEYBOARD and other = POINTER
        and history = ?history and during = ?during]
  have h1: "POINTER \<noteq> KEYBOARD" by simp
  have h2: "exampleStore = run EventPolicySetModel (initialize EventPolicySetModel) ?history"
    by (simp add: exampleStore_def run_def)
  have h3: "Suspend KEYBOARD \<notin> set ?during \<and> Restore KEYBOARD \<notin> set ?during
            \<and> RESET \<notin> set ?during"
    by simp
  have ids: "issuedIDs EventPolicySetModel (suspend EventPolicySetModel exampleStore KEYBOARD)
               KEYBOARD ?during = [1, 2]"
    by (simp add: exampleStore_eq store_defs model_defs)
  have has0: "eps_has EventPolicySetModel (policySets exampleStore KEYBOARD) 0"
    by (simp add: exampleStore_eq model_defs)
  have fresh: "policySets (suspend EventPolicySetModel exampleStore KEYBOARD) KEYBOARD
       = \<lparr>policyLists = [], policyCounter = 1\<rparr>"
    by (simp add: exampleStore_eq store_defs model_defs)
  have frame: "policySets (suspend EventPolicySetModel exampleStore KEYBOARD) POINTER
                 = policySets exampleStore POINTER
             \<and> isDirty (suspend EventPolicySetModel exampleStore KEYBOARD) POINTER
                 = isDirty exampleStore POINTER"
    using t h1 by blast
  have "\<forall>j \<in> set (issuedIDs EventPolicySetModel (suspend EventPolicySetModel exampleStore KEYBOARD)
                     KEYBOARD ?during).
          \<not> eps_has EventPolicySetModel (policySets exampleStore KEYBOARD) j
        \<and> (case suspendedPolicySets
                   (run EventPolicySetModel (suspend EventPolicySetModel exampleStore KEYBOARD)
                      ?during) KEYBOARD of
              None \<Rightarrow> False
            | Some sp' \<Rightarrow> \<not> eps_has EventPolicySetModel sp' j)"
    using t h2 h3 by blast
  then have miss: "\<not> eps_has EventPolicySetModel (policySets exampleStore KEYBOARD) 1
                 \<and> \<not> eps_has EventPolicySetModel (policySets exampleStore KEYBOARD) 2"
    unfolding ids by simp
  from h1 h2 fresh frame has0 ids miss show ?thesis
    by blast
qed

subsection \<open>areAllSuspended\<close>

text \<open>
  Claim C8. \<^verbatim>\<open>areAllSuspended()\<close> is true exactly when the keyboard policies are
  suspended; whatever is stored as the suspended pointer policy set does not change its
  result; in \<open>suspendedStore\<close>, where only the keyboard policies are suspended, it is true
  while the pointer policies are not suspended, so it differs there from
  \<^verbatim>\<open>isSuspended(KEYBOARD) && isSuspended(POINTER)\<close>.
\<close>

theorem areAllSuspended_keyboard_only:
  "areAllSuspended s = isSuspended s KEYBOARD
   \<and> areAllSuspended (s\<lparr>suspendedPolicySets := (suspendedPolicySets s)(POINTER := x)\<rparr>)
       = areAllSuspended s
   \<and> areAllSuspended suspendedStore
   \<and> \<not> isSuspended suspendedStore POINTER
   \<and> areAllSuspended suspendedStore
       \<noteq> (isSuspended suspendedStore KEYBOARD \<and> isSuspended suspendedStore POINTER)"
  by (simp add: areAllSuspended_def isSuspended_def suspendedStore_eq)

subsection \<open>The dirty bits\<close>

text \<open>
  Claim C9, as stated, fails for a \<^verbatim>\<open>restore\<close> that throws: on the store as
  \<^verbatim>\<open>initialize\<close> leaves it, \<^verbatim>\<open>restore("keyboard")\<close> throws and the keyboard
  policies are not dirty afterwards.
\<close>

theorem restore_not_dirty_counterexample:
  "fst (restore EventPolicySetModel
          (initialize EventPolicySetModel :: (string policySetModel, nat) PolicyStore) KEYBOARD)
     = Inl (Error ''Policies are not currently suspended'')
   \<and> \<not> isDirty
         (snd (restore EventPolicySetModel
                 (initialize EventPolicySetModel :: (string policySetModel, nat) PolicyStore)
                 KEYBOARD))
         KEYBOARD"
  by (simp add: store_defs)

text \<open>
  Claim C9, amended. \<^verbatim>\<open>suspend\<close>, \<^verbatim>\<open>addPolicyList\<close> and \<^verbatim>\<open>removePolicyList\<close>
  (whatever the policy set does with the ID) leave the kind dirty, and so does
  \<^verbatim>\<open>restore\<close> when the kind is suspended; a \<^verbatim>\<open>restore\<close> of a kind that is not
  suspended throws and leaves the dirty bit as it was. If a kind is dirty before one of
  the store's actions and not dirty after it, the action is \<^verbatim>\<open>POLICIES_INSTALLED\<close> for
  that kind or \<^verbatim>\<open>RESET\<close>; and both of these leave the kind not dirty.
\<close>

theorem dirty_bit_invariant:
  "isDirty (suspend E s kind) kind
   \<and> (isSuspended s kind \<longrightarrow> isDirty (snd (restore E s kind)) kind)
   \<and> (\<not> isSuspended s kind \<longrightarrow> isDirty (snd (restore E s kind)) kind = isDirty s kind)
   \<and> isDirty (snd (addPolicyList E s kind policyList)) kind
   \<and> isDirty (snd (removePolicyList E s kind i)) kind
   \<and> (isDirty s kind \<and> \<not> isDirty (step E s a) kind
        \<longrightarrow> a = POLICIES_INSTALLED kind \<or> a = RESET)
   \<and> \<not> isDirty (handlePoliciesInstalled s kind) kind
   \<and> \<not> isDirty (handleReset E s) kind"
proof -
  have "isDirty s kind \<and> \<not> isDirty (step E s a) kind
          \<longrightarrow> a = POLICIES_INSTALLED kind \<or> a = RESET"
    by (cases a) (auto simp: store_defs Let_def split: option.splits prod.splits if_splits)
  then show ?thesis
    by (auto simp: store_defs Let_def split: option.splits prod.splits)
qed

theorem dirty_bit_invariant_witness:
  "isSuspended suspendedStore KEYBOARD
   \<and> isDirty (snd (restore EventPolicySetModel suspendedStore KEYBOARD)) KEYBOARD
   \<and> \<not> isSuspended exampleStore POINTER
   \<and> isDirty (snd (restore EventPolicySetModel exampleStore POINTER)) POINTER
       = isDirty exampleStore POINTER
   \<and> fst (removePolicyList EventPolicySetModel suspendedStore KEYBOARD 7)
       = Inl (Error ''Unknown policy list'')
   \<and> isDirty (snd (removePolicyList EventPolicySetModel suspendedStore KEYBOARD 7)) KEYBOARD
   \<and> isDirty suspendedStore KEYBOARD
   \<and> \<not> isDirty (step EventPolicySetModel suspendedStore (POLICIES_INSTALLED KEYBOARD)) KEYBOARD"
proof -
  have h: "isSuspended suspendedStore KEYBOARD"
    by (simp add: suspendedStore_eq isSuspended_def)
  have h': "\<not> isSuspended exampleStore POINTER"
    by (simp add: exampleStore_eq isSuspended_def)
  have d: "isDirty suspendedStore KEYBOARD"
    by (simp add: suspendedStore_eq isDirty_def)
  have n: "\<not> isDirty (step EventPolicySetModel suspendedStore (POLICIES_INSTALLED KEYBOARD)) KEYBOARD"
    by (simp add: suspendedStore_eq store_defs)
  have r: "fst (removePolicyList EventPolicySetModel suspendedStore KEYBOARD 7)
       = Inl (Error ''Unknown policy list'')"
    by (simp add: suspendedStore_eq store_defs model_defs)
  show ?thesis
    using h h' d n r
      dirty_bit_invariant [of EventPolicySetModel suspendedStore KEYBOARD "[]" 7
        "POLICIES_INSTALLED KEYBOARD"]
      dirty_bit_invariant [of EventPolicySetModel exampleStore POINTER "[]" 7
        "POLICIES_INSTALLED POINTER"]
    by simp
qed

subsection \<open>removePolicyList\<close>

text \<open>
  Claim C10. When the policies of the kind are suspended and the suspended policy set
  has the ID, \<^verbatim>\<open>removePolicyList(kind, id)\<close> returns what the suspended set's
  \<^verbatim>\<open>removePolicyList(id)\<close> returns, the suspended set is the set after that removal, and
  the active sets are untouched. In every other case it returns what the active set's
  \<^verbatim>\<open>removePolicyList(id)\<close> returns, the active set of the kind is the set after that
  removal, and the suspended sets are untouched.
\<close>

theorem removePolicyList_target:
  "(suspendedPolicySets s kind = Some sp \<and> eps_has E sp i \<longrightarrow>
      fst (removePolicyList E s kind i) = fst (eps_removePolicyList E sp i)
    \<and> suspendedPolicySets (snd (removePolicyList E s kind i))
        = (suspendedPolicySets s)(kind \<mapsto> snd (eps_removePolicyList E sp i))
    \<and> policySets (snd (removePolicyList E s kind i)) = policySets s)
   \<and> (\<not> (\<exists>sp'. suspendedPolicySets s kind = Some sp' \<and> eps_has E sp' i) \<longrightarrow>
      fst (removePolicyList E s kind i) = fst (eps_removePolicyList E (policySets s kind) i)
    \<and> policySets (snd (removePolicyList E s kind i))
        = (policySets s)(kind := snd (eps_removePolicyList E (policySets s kind) i))
    \<and> suspendedPolicySets (snd (removePolicyList E s kind i)) = suspendedPolicySets s)"
  by (auto simp: removePolicyList_def Let_def split: option.splits prod.splits)

text \<open>
  The two cases at work. The list \<open>[''escape'', ''enter'']\<close> was installed under ID 0
  before the keyboard policies were suspended: in \<open>suspendedStore\<close> it is removed from the
  suspended set and returned. In \<open>exampleStore\<close>, where nothing is suspended, it is removed
  from the active set.
\<close>

theorem removePolicyList_target_witness:
  "suspendedPolicySets suspendedStore KEYBOARD
     = Some \<lparr>policyLists = [(0, [''escape'', ''enter''])], policyCounter = 1\<rparr>
   \<and> eps_has EventPolicySetModel
       \<lparr>policyLists = [(0, [''escape'', ''enter''])], policyCounter = 1\<rparr> 0
   \<and> fst (removePolicyList EventPolicySetModel suspendedStore KEYBOARD 0)
       = Inr [''escape'', ''enter'']
   \<and> suspendedPolicySets (snd (removePolicyList EventPolicySetModel suspendedStore KEYBOARD 0)) KEYBOARD
       = Some \<lparr>policyLists = [], policyCounter = 1\<rparr>
   \<and> \<not> (\<exists>sp'. suspendedPolicySets exampleStore KEYBOARD = Some sp'
              \<and> eps_has EventPolicySetModel sp' 0)
   \<and> fst (removePolicyList EventPolicySetModel exampleStore KEYBOARD 0)
       = Inr [''escape'', ''enter'']
   \<and> policySets (snd (removePolicyList EventPolicySetModel exampleStore KEYBOARD 0)) KEYBOARD
       = \<lparr>policyLists = [], policyCounter = 1\<rparr>"
proof -
  have h1: "suspendedPolicySets suspendedStore KEYBOARD
     = Some \<lparr>policyLists = [(0, [''escape'', ''enter''])], policyCounter = 1\<rparr>"
    by (simp add: suspendedStore_eq)
  have h2: "eps_has EventPolicySetModel
       \<lparr>policyLists = [(0, [''escape'', ''enter''])], policyCounter = 1\<rparr> 0"
    by (simp add: model_defs)
  have h3: "\<not> (\<exists>sp'. suspendedPolicySets exampleStore KEYBOARD = Some sp'
              \<and> eps_has EventPolicySetModel sp' 0)"
    by (simp add: exampleStore_eq)
  have p: "policySets exampleStore KEYBOARD
     = \<lparr>policyLists = [(0, [''escape'', ''enter''])], policyCounter = 1\<rparr>"
    by (simp add: exampleStore_eq)
  show ?thesis
    using h1 h2 h3 p
      removePolicyList_target [of suspendedStore KEYBOARD
        "\<lparr>policyLists = [(0, [''escape'', ''enter''])], policyCounter = 1\<rparr>"
        EventPolicySetModel 0]
      removePolicyList_target [of exampleStore KEYBOARD
        "\<lparr>policyLists = [(0, [''escape'', ''enter''])], policyCounter = 1\<rparr>"
        EventPolicySetModel 0]
    by (simp add: model_defs)
qed

section \<open>Properties of the numeric input control\<close>

text \<open>
  Claim C4. \<^verbatim>\<open>extractValue\<close> parses the raw string with radix 10; it returns
  \<^verbatim>\<open>null\<close> when the parsed number is NaN or one of the infinities, and the parsed
  number when that is finite.
\<close>

theorem extractValue_finite_or_null:
  "extractValue parseNumber rawValue =
     (case parseNumber rawValue 10 of
        Finite v \<Rightarrow> Some (Finite v)
      | PosInfinity \<Rightarrow> None
      | NegInfinity \<Rightarrow> None
      | NaN \<Rightarrow> None)"
  by (simp add: extractValue_def Let_def split: jsNumber.splits)

section \<open>Properties of the document model\<close>

text \<open>
  Claim C5. \<^verbatim>\<open>resize(x, y)\<close> returns a document whose bounds are the bounds of the
  original updated to the size, and whose other six fields are those of the original.
  A document is a value: the original is not changed by anything.
\<close>

theorem resize_frame:
  "bounds (resize updateSize d x y) = updateSize (bounds d) x y
   \<and> id' (resize updateSize d x y) = id' d
   \<and> name (resize updateSize d x y) = name d
   \<and> hasBackgroundLayer (resize updateSize d x y) = hasBackgroundLayer d
   \<and> layers (resize updateSize d x y) = layers d
   \<and> resolution (resize updateSize d x y) = resolution d
   \<and> mode (resize updateSize d x y) = mode d"
  by (simp add: resize_def)

text \<open>
  Claim C6. The document made by \<^verbatim>\<open>Document.fromDescriptors\<close> has the descriptor's
  \<^verbatim>\<open>documentID\<close> as its id, its \<^verbatim>\<open>title\<close> as its name, its
  \<^verbatim>\<open>hasBackgroundLayer\<close>, its \<^verbatim>\<open>resolution.value\<close> and its \<^verbatim>\<open>mode.value\<close>; its bounds
  are built by \<^verbatim>\<open>Bounds.fromDocumentDescriptor\<close> from the descriptor and its layers by
  \<^verbatim>\<open>LayerStructure.fromDescriptors\<close> from the descriptor and the layer descriptors.
\<close>

theorem fromDescriptors_fields:
  "id' (fromDescriptors B L documentDescriptor layerDescriptors) = documentID documentDescriptor
   \<and> name (fromDescriptors B L documentDescriptor layerDescriptors) = title documentDescriptor
   \<and> hasBackgroundLayer (fromDescriptors B L documentDescriptor layerDescriptors)
       = documentDescriptor.hasBackgroundLayer documentDescriptor
   \<and> resolution (fromDescriptors B L documentDescriptor layerDescriptors)
       = val (documentDescriptor.resolution documentDescriptor)
   \<and> mode (fromDescriptors B L documentDescriptor layerDescriptors)
       = val (documentDescriptor.mode documentDescriptor)
   \<and> bounds (fromDescriptors B L documentDescriptor layerDescriptors) = B documentDescriptor
   \<and> layers (fromDescriptors B L documentDescriptor layerDescriptors)
       = L documentDescriptor layerDescriptors"
  by (simp add: fromDescriptors_def)

end
